theory Spec2Isabelle
  imports Main
begin

section \<open>The astro-htmx integration (src/index.ts)\<close>

text \<open>
  The integration is one factory function.  It reads the optional list of extension
  descriptors, builds two blocks of generated JavaScript (one import statement and one
  registration call per extension) and passes a template literal that embeds both blocks to
  the host's \<open>injectScript\<close> callback.

  JavaScript strings are modelled as \<open>string\<close> (lists of \<open>char\<close>).  The only operation
  of the source that looks at the value of a character is \<open>toUpperCase\<close>; it is modelled on
  the ASCII letters, every other character being left as it is.
\<close>

subsection \<open>Data model\<close>

text \<open>
  \<^verbatim>\<open>type HtmxOptions = { extensions?: { name: string; path?: string }[] };\<close>
  An optional property is an \<open>option\<close>: \<open>None\<close> is \<open>undefined\<close>.
\<close>

record ExtensionDescriptor =
  name :: string
  path :: "string option"

record HtmxOptions =
  extensions :: "ExtensionDescriptor list option"

subsection \<open>The string methods the source calls\<close>

text \<open>
  \<open>s.split(sep)\<close> for a separator of one character: the pieces between the occurrences
  of the separator, in order.  The result is never empty: a string without the separator
  (the empty string too) gives one piece, and a separator at either end or next to another
  one gives an empty piece.  The first branch of the \<open>case\<close> below is therefore never
  taken; it only makes the definition complete.
\<close>

fun split :: "char \<Rightarrow> string \<Rightarrow> string list" where
  "split sep [] = [[]]"
| "split sep (c # cs) =
     (if c = sep then [] # split sep cs
      else (case split sep cs of
              [] \<Rightarrow> [[c]]
            | p # ps \<Rightarrow> (c # p) # ps))"

text \<open>\<open>xs.join(sep)\<close>: the elements with the separator between neighbours.\<close>

fun join :: "string \<Rightarrow> string list \<Rightarrow> string" where
  "join sep [] = []"
| "join sep [x] = x"
| "join sep (x # y # ys) = x @ sep @ join sep (y # ys)"

text \<open>\<open>s.charAt(i)\<close>: the one-character string at index \<open>i\<close>, the empty string out of range.\<close>

definition charAt :: "string \<Rightarrow> nat \<Rightarrow> string" where
  "charAt s i = (if i < length s then [s ! i] else [])"

text \<open>\<open>s.substring(start)\<close>: the rest of the string from \<open>start\<close>, which is clamped to the length.\<close>

definition substring :: "string \<Rightarrow> nat \<Rightarrow> string" where
  "substring s start = drop start s"

text \<open>
  \<open>s.toUpperCase()\<close> on the ASCII range, character by character: a lowercase letter becomes
  its capital and every other character stays.  The built-in follows Unicode beyond ASCII
  (it changes accented letters and can lengthen the string); that part is not modelled,
  and the properties below that depend on the case mapping are stated for ASCII names.
\<close>

definition toUpperChar :: "char \<Rightarrow> char" where
  "toUpperChar c =
     (case map_of (zip ''abcdefghijklmnopqrstuvwxyz'' ''ABCDEFGHIJKLMNOPQRSTUVWXYZ'') c of
        None \<Rightarrow> c
      | Some u \<Rightarrow> u)"

definition toUpperCase :: "string \<Rightarrow> string" where
  "toUpperCase s = map toUpperChar s"

subsection \<open>safeExtName\<close>

text \<open>
  \<^verbatim>\<open>
  const safeExtName = (name: string): string =>
    name
      .split("-")
      .map((part, index) =>
        index === 0 ? part : part.charAt(0).toUpperCase() + part.substring(1),
      )
      .join("");
  \<close>
  The callback of \<open>map\<close> receives the element and its index, so the list is enumerated from 0.
\<close>

definition safeExtName :: "string \<Rightarrow> string" where
  "safeExtName nm =
     join ''''
       (map (\<lambda>(index, part).
               if index = 0 then part
               else toUpperCase (charAt part 0) @ substring part 1)
            (enumerate 0 (split (CHR ''-'') nm)))"

subsection \<open>The generated statements\<close>

text \<open>
  The two arrow functions mapped over \<open>extensions\<close>:
  \<^verbatim>\<open>
  (ext) => `import * as ${safeExtName(ext.name)} from "${ext.path ?? ext.name}";`
  (ext) => `htmx.defineExtension("${ext.name}", "${safeExtName(ext.name)}");`
  \<close>
\<close>

definition importStatement :: "ExtensionDescriptor \<Rightarrow> string" where
  \<open>importStatement ext =
     ''import * as '' @ safeExtName (name ext) @ '' from "''
       @ (case path ext of None \<Rightarrow> name ext | Some p \<Rightarrow> p) @ ''";''\<close>

definition registrationStatement :: "ExtensionDescriptor \<Rightarrow> string" where
  \<open>registrationStatement ext =
     ''htmx.defineExtension("'' @ name ext @ ''", "'' @ safeExtName (name ext) @ ''");''\<close>

definition extensionImports :: "ExtensionDescriptor list \<Rightarrow> string" where
  "extensionImports exts = join ''\<newline>'' (map importStatement exts)"

definition extensionRegistrations :: "ExtensionDescriptor list \<Rightarrow> string" where
  "extensionRegistrations exts = join ''\<newline>'' (map registrationStatement exts)"

text \<open>
  The template literal passed to \<open>injectScript\<close>, line by line as it stands in the source
  (the continuation lines keep their indentation of 10 and 12 blanks):
  \<^verbatim>\<open>
          `import * as htmx from "htmx.org";
          ${extensionImports}

          document.addEventListener('astro:after-swap', () => {
            htmx.process(document.body);
            ${extensionRegistrations}
          });

          window.htmx = htmx;`
  \<close>
\<close>

definition generateBootstrapScript :: "ExtensionDescriptor list \<Rightarrow> string" where
  \<open>generateBootstrapScript exts =
     ''import * as htmx from "htmx.org";'' @ ''\<newline>''
     @ ''          '' @ extensionImports exts @ ''\<newline>''
     @ ''\<newline>''
     @ ''          document.addEventListener('astro:after-swap', () => {'' @ ''\<newline>''
     @ ''            htmx.process(document.body);'' @ ''\<newline>''
     @ ''            '' @ extensionRegistrations exts @ ''\<newline>''
     @ ''          });'' @ ''\<newline>''
     @ ''\<newline>''
     @ ''          window.htmx = htmx;''\<close>

subsection \<open>The setup hook and the factory\<close>

text \<open>
  The host passes \<open>injectScript(stage, content)\<close> to the hook; calling it changes the
  host's state.  The hook is therefore a transformer of the host's state, given the
  callback.
  \<^verbatim>\<open>
  "astro:config:setup": ({ injectScript }) => { ...; injectScript("page", `...`); }
  \<close>
\<close>

type_synonym 'h injectScript = "string \<Rightarrow> string \<Rightarrow> 'h \<Rightarrow> 'h"

definition astroConfigSetup :: "ExtensionDescriptor list \<Rightarrow> 'h injectScript \<Rightarrow> 'h \<Rightarrow> 'h" where
  "astroConfigSetup exts injectScript = injectScript ''page'' (generateBootstrapScript exts)"

text \<open>
  The object the factory returns: \<open>{ name: "astro-htmx", hooks: { ... } }\<close>.  Its field
  \<open>name\<close> is called \<open>integrationName\<close> here, to keep it apart from the descriptor's.
\<close>

record 'h AstroIntegration =
  integrationName :: string
  hooks :: "(string \<times> ('h injectScript \<Rightarrow> 'h \<Rightarrow> 'h)) list"

text \<open>
  \<^verbatim>\<open>
  export default function (options: HtmxOptions = {}): AstroIntegration {
    const { extensions = [] } = options;
  \<close>
  A missing argument takes the default \<open>{}\<close>, and a missing \<open>extensions\<close> the default \<open>[]\<close>.
\<close>

definition configuredExtensions :: "HtmxOptions option \<Rightarrow> ExtensionDescriptor list" where
  "configuredExtensions arg =
     (let options = (case arg of None \<Rightarrow> \<lparr>extensions = None\<rparr> | Some given \<Rightarrow> given)
      in case extensions options of None \<Rightarrow> [] | Some exts \<Rightarrow> exts)"

definition htmx :: "HtmxOptions option \<Rightarrow> 'h AstroIntegration" where
  "htmx arg =
     \<lparr>integrationName = ''astro-htmx'',
      hooks = [(''astro:config:setup'', astroConfigSetup (configuredExtensions arg))]\<rparr>"

text \<open>A host that does nothing but keep the calls of \<open>injectScript\<close>, in order.\<close>

definition recordInjection :: "(string \<times> string) list injectScript" where
  "recordInjection stage content calls = calls @ [(stage, content)]"

subsection \<open>Reading the generated text\<close>

text \<open>\<open>startsWith s pat\<close>: the text \<open>s\<close> begins with \<open>pat\<close>.\<close>

fun startsWith :: "string \<Rightarrow> string \<Rightarrow> bool" where
  "startsWith s [] = True"
| "startsWith [] (p # ps) = False"
| "startsWith (c # cs) (p # ps) = (c = p \<and> startsWith cs ps)"

text \<open>The number of positions of \<open>s\<close> at which an occurrence of \<open>pat\<close> starts.\<close>

fun countOccurrences :: "string \<Rightarrow> string \<Rightarrow> nat" where
  "countOccurrences pat [] = (if pat = [] then 1 else 0)"
| "countOccurrences pat (c # cs) =
     (if startsWith (c # cs) pat then 1 else 0) + countOccurrences pat cs"

definition contains :: "string \<Rightarrow> string \<Rightarrow> bool" where
  "contains pat s = (0 < countOccurrences pat s)"

definition isLowerOrDigit :: "char \<Rightarrow> bool" where
  "isLowerOrDigit c = (c \<in> set ''abcdefghijklmnopqrstuvwxyz0123456789'')"

text \<open>
  The camel-case step in the words of the specification: the first character of a
  segment uppercased, the remainder unchanged.
\<close>

fun capitalize :: "string \<Rightarrow> string" where
  "capitalize [] = []"
| "capitalize (c # cs) = toUpperChar c # cs"

text \<open>
  Layout of a joined block: every element followed by the separator, and every element
  preceded by it.  With these, the text on either side of one element of \<open>join sep xs\<close>
  can be written down.
\<close>

definition eachFollowedBy :: "string \<Rightarrow> string list \<Rightarrow> string" where
  "eachFollowedBy sep xs = concat (map (\<lambda>x. x @ sep) xs)"

definition eachPrecededBy :: "string \<Rightarrow> string list \<Rightarrow> string" where
  "eachPrecededBy sep xs = concat (map (\<lambda>x. sep @ x) xs)"

text \<open>A line break of the template literal: the newline and the indentation of the next line.\<close>

definition lineBreak :: "nat \<Rightarrow> string" where
  "lineBreak n = CHR ''\<newline>'' # replicate n (CHR '' '')"

section \<open>Properties of the string methods\<close>

lemma split_not_Nil: "split sep s \<noteq> []"
  by (induction s) (auto split: list.splits)

lemma split_no_separator: "sep \<notin> set s \<Longrightarrow> split sep s = [s]"
  by (induction s) auto

lemma split_segment_then_separator:
  "sep \<notin> set a \<Longrightarrow> split sep (a @ sep # rest) = a # split sep rest"
  by (induction a) auto

lemma split_join:
  "\<forall>s \<in> set (x # xs). sep \<notin> set s \<Longrightarrow> split sep (join [sep] (x # xs)) = x # xs"
proof (induction xs arbitrary: x)
  case Nil
  then show ?case by (simp add: split_no_separator)
next
  case (Cons y ys)
  then have "split sep (join [sep] (y # ys)) = y # ys" by simp
  moreover from Cons.prems have "sep \<notin> set x" by simp
  ultimately show ?case by (simp add: split_segment_then_separator)
qed

lemma join_empty_separator: "join [] xs = concat xs"
  by (induction "[] :: string" xs rule: join.induct) simp_all

lemma capitalize_code: "toUpperCase (charAt part 0) @ substring part 1 = capitalize part"
  by (cases part) (simp_all add: toUpperCase_def charAt_def substring_def)

lemma map_later_segments:
  "map (\<lambda>(index, part). if index = 0 then part
                        else toUpperCase (charAt part 0) @ substring part 1)
       (enumerate (Suc n) parts)
   = map capitalize parts"
  by (induction parts arbitrary: n) (simp_all add: capitalize_code del: One_nat_def)

lemma safeExtName_segments:
  "split (CHR ''-'') nm = s0 # ss \<Longrightarrow> safeExtName nm = s0 @ concat (map capitalize ss)"
  by (simp add: safeExtName_def join_empty_separator map_later_segments)

lemma split_append_separator:
  "split sep (a @ sep # b) = split sep a @ split sep b"
proof (induction a)
  case Nil
  then show ?case by simp
next
  case (Cons c a)
  obtain p ps where "split sep a = p # ps"
    using split_not_Nil [of sep a] by (cases "split sep a") auto
  with Cons.IH show ?case by simp
qed

lemma split_segments_free: "p \<in> set (split sep s) \<Longrightarrow> sep \<notin> set p"
proof (induction s arbitrary: p)
  case Nil
  then show ?case by simp
next
  case (Cons c cs)
  then show ?case
    by (auto split: if_splits list.splits)
qed

lemma join_first_char: "join sep ((c # p) # ps) = c # join sep (p # ps)"
  by (cases ps) simp_all

lemma join_split: "join [sep] (split sep s) = s"
proof (induction s)
  case Nil
  then show ?case by simp
next
  case (Cons c cs)
  obtain p ps where ps: "split sep cs = p # ps"
    using split_not_Nil [of sep cs] by (cases "split sep cs") auto
  with Cons.IH show ?case by (simp add: join_first_char)
qed

lemma safeExtName_split:
  "safeExtName nm = hd (split (CHR ''-'') nm) @ concat (map capitalize (tl (split (CHR ''-'') nm)))"
proof -
  obtain s0 ss where "split (CHR ''-'') nm = s0 # ss"
    using split_not_Nil [of "CHR ''-''" nm] by (cases "split (CHR ''-'') nm") auto
  then show ?thesis by (simp add: safeExtName_segments)
qed

lemma capitalize_drop_empty:
  "concat (map capitalize (filter (\<lambda>s. s \<noteq> []) ss)) = concat (map capitalize ss)"
  by (induction ss) simp_all

section \<open>Properties of the text layout\<close>

lemma startsWith_iff: "startsWith s pat \<longleftrightarrow> (\<exists>q. s = pat @ q)"
  by (induction s pat rule: startsWith.induct) auto

lemma countOccurrences_pos_iff: "0 < countOccurrences pat s \<longleftrightarrow> (\<exists>p q. s = p @ pat @ q)"
proof (induction s)
  case Nil
  then show ?case by simp
next
  case (Cons c cs)
  have "(\<exists>p q. c # cs = p @ pat @ q) \<longleftrightarrow> (\<exists>q. c # cs = pat @ q) \<or> (\<exists>p q. cs = p @ pat @ q)"
    (is "?L \<longleftrightarrow> ?R")
  proof
    assume ?L
    then obtain p q where pq: "c # cs = p @ pat @ q" by blast
    show ?R
    proof (cases p)
      case Nil
      with pq show ?thesis by auto
    next
      case (Cons d p')
      with pq have "cs = p' @ pat @ q" by simp
      then show ?thesis by blast
    qed
  next
    assume ?R
    then show ?L
    proof
      assume "\<exists>q. c # cs = pat @ q"
      then obtain q where "c # cs = [] @ pat @ q" by auto
      then show ?L by blast
    next
      assume "\<exists>p q. cs = p @ pat @ q"
      then obtain p q where "c # cs = (c # p) @ pat @ q" by auto
      then show ?L by blast
    qed
  qed
  with Cons.IH show ?case by (simp add: startsWith_iff)
qed

lemma contains_iff: "contains pat s \<longleftrightarrow> (\<exists>p q. s = p @ pat @ q)"
  by (simp add: contains_def countOccurrences_pos_iff)

lemma join_Cons: "join sep (x # xs) = x @ eachPrecededBy sep xs"
  by (induction xs arbitrary: x) (simp_all add: eachPrecededBy_def)

lemma eachFollowedBy_Cons:
  "x @ eachPrecededBy sep xs @ sep = eachFollowedBy sep (x # xs)"
  by (induction xs arbitrary: x) (simp_all add: eachPrecededBy_def eachFollowedBy_def)

lemma join_around:
  "join sep (xs @ a # ys) = eachFollowedBy sep xs @ a @ eachPrecededBy sep ys"
proof (cases xs)
  case Nil
  then show ?thesis by (simp add: join_Cons eachFollowedBy_def)
next
  case (Cons x xs')
  have "join sep (xs @ a # ys) = x @ eachPrecededBy sep (xs' @ a # ys)"
    by (simp add: Cons join_Cons)
  also have "\<dots> = (x @ eachPrecededBy sep xs' @ sep) @ a @ eachPrecededBy sep ys"
    by (simp add: eachPrecededBy_def)
  also have "\<dots> = eachFollowedBy sep xs @ a @ eachPrecededBy sep ys"
    by (simp only: eachFollowedBy_Cons Cons)
  finally show ?thesis .
qed

lemma join_around_two:
  "join sep (xs @ a # ys @ b # zs)
   = eachFollowedBy sep xs @ a @ sep @ eachFollowedBy sep ys @ b @ eachPrecededBy sep zs"
proof -
  have "eachPrecededBy sep (ys @ b # zs) = sep @ eachFollowedBy sep ys @ b @ eachPrecededBy sep zs"
  proof (cases ys)
    case Nil
    then show ?thesis by (simp add: eachPrecededBy_def eachFollowedBy_def)
  next
    case (Cons y ys')
    have "eachPrecededBy sep (ys @ b # zs) = sep @ (y @ eachPrecededBy sep ys' @ sep) @ b @ eachPrecededBy sep zs"
      by (simp add: Cons eachPrecededBy_def)
    then show ?thesis by (simp only: eachFollowedBy_Cons Cons)
  qed
  then show ?thesis by (simp add: join_around)
qed

lemma empty_script_text:
  \<open>generateBootstrapScript [] =
     ''import * as htmx from "htmx.org";\<newline>          \<newline>\<newline>          document.addEventListener('astro:after-swap', () => {\<newline>            htmx.process(document.body);\<newline>            \<newline>          });\<newline>\<newline>          window.htmx = htmx;''\<close>
  by (simp add: generateBootstrapScript_def extensionImports_def extensionRegistrations_def)

lemma script_around_imports:
  \<open>generateBootstrapScript exts =
     ''import * as htmx from "htmx.org";\<newline>          ''
     @ extensionImports exts
     @ ''\<newline>\<newline>          document.addEventListener('astro:after-swap', () => {\<newline>            htmx.process(document.body);\<newline>            ''
     @ extensionRegistrations exts
     @ ''\<newline>          });\<newline>\<newline>          window.htmx = htmx;''\<close>
  by (simp add: generateBootstrapScript_def)

lemma script_two_extensions_text:
  \<open>generateBootstrapScript
     [\<lparr>name = ''response-targets'', path = None\<rparr>, \<lparr>name = ''foo'', path = Some ''./local/foo''\<rparr>] =
     ''import * as htmx from "htmx.org";\<newline>          import * as responseTargets from "response-targets";\<newline>import * as foo from "./local/foo";\<newline>\<newline>          document.addEventListener('astro:after-swap', () => {\<newline>            htmx.process(document.body);\<newline>            htmx.defineExtension("response-targets", "responseTargets");\<newline>htmx.defineExtension("foo", "foo");\<newline>          });\<newline>\<newline>          window.htmx = htmx;''\<close>
proof -
  have n: \<open>safeExtName ''response-targets'' = ''responseTargets''\<close>
    by (simp add: safeExtName_def toUpperCase_def toUpperChar_def charAt_def substring_def)
  have m: \<open>safeExtName ''foo'' = ''foo''\<close>
    by (simp add: safeExtName_def)
  show ?thesis
    by (simp add: generateBootstrapScript_def extensionImports_def
        extensionRegistrations_def importStatement_def registrationStatement_def n m)
qed

lemma importStatement_in_imports:
  assumes "ext \<in> set exts"
  shows "\<exists>p q. extensionImports exts = p @ importStatement ext @ q"
proof -
  from assms obtain xs ys where "exts = xs @ ext # ys"
    by (meson split_list)
  then have "extensionImports exts
      = eachFollowedBy ''\<newline>'' (map importStatement xs) @ importStatement ext
        @ eachPrecededBy ''\<newline>'' (map importStatement ys)"
    by (simp add: extensionImports_def join_around)
  then show ?thesis by blast
qed

section \<open>The claims about safeExtName\<close>

text \<open>
  C7: a name without a hyphen is returned as it is; its single segment is used verbatim.
\<close>

theorem safeExtName_hyphenless: "CHR ''-'' \<notin> set n \<Longrightarrow> safeExtName n = n"
  by (simp add: safeExtName_segments [of n n "[]"] split_no_separator)

theorem safeExtName_hyphenless_witness:
  "CHR ''-'' \<notin> set ''foo'' \<and> safeExtName ''foo'' = ''foo''"
  using safeExtName_hyphenless [of "''foo''"] by simp

text \<open>
  C2: for a name made of the segments \<open>s0\<close>, \<open>s1\<close>, ..., \<open>sk\<close> (lowercase letters and
  digits) joined by hyphens, the result is \<open>s0\<close> followed by every later segment with its
  first character uppercased and its remainder unchanged, in order and with no separator.
\<close>

theorem safeExtName_camel_case:
  assumes "\<forall>s \<in> set (s0 # ss). \<forall>c \<in> set s. isLowerOrDigit c"
  shows "safeExtName (join ''-'' (s0 # ss)) = s0 @ concat (map capitalize ss)"
proof -
  have "\<forall>s \<in> set (s0 # ss). CHR ''-'' \<notin> set s"
  proof
    fix s assume "s \<in> set (s0 # ss)"
    with assms have "\<forall>c \<in> set s. isLowerOrDigit c" by blast
    moreover have "\<not> isLowerOrDigit (CHR ''-'')" by (simp add: isLowerOrDigit_def)
    ultimately show "CHR ''-'' \<notin> set s" by blast
  qed
  then have "split (CHR ''-'') (join ''-'' (s0 # ss)) = s0 # ss"
    by (rule split_join)
  then show ?thesis by (rule safeExtName_segments)
qed

theorem safeExtName_camel_case_witness:
  "safeExtName ''response-targets'' = ''responseTargets'' \<and> safeExtName ''a-b-c'' = ''aBC''"
  using safeExtName_camel_case [of "''response''" "[''targets'']"]
    safeExtName_camel_case [of "''a''" "[''b'', ''c'']"]
  by (simp add: isLowerOrDigit_def toUpperChar_def)

text \<open>
  C9: an empty segment, which a leading, a trailing or a doubled hyphen produces,
  contributes nothing to the result.  For hyphen-free segments \<open>s0\<close>, \<open>s1\<close>, ..., some of
  which may be empty, the result for the name that joins them with hyphens is \<open>s0\<close>
  followed by the capitalized non-empty later segments; every string is such a name, so
  this gives the result on every input.  In particular a hyphen at the end changes
  nothing, and two hyphens in a row give what one gives.  Every method the function calls
  is defined on every string, so the function has no failing branch.
\<close>

theorem safeExtName_empty_segments:
  "((\<forall>s \<in> set (s0 # ss). CHR ''-'' \<notin> set s) \<longrightarrow>
      safeExtName (join ''-'' (s0 # ss))
        = s0 @ concat (map capitalize (filter (\<lambda>s. s \<noteq> []) ss)))
   \<and> (\<exists>t0 ts. nm = join ''-'' (t0 # ts) \<and> (\<forall>s \<in> set (t0 # ts). CHR ''-'' \<notin> set s))
   \<and> safeExtName (nm @ ''-'') = safeExtName nm
   \<and> safeExtName (a @ ''--'' @ b) = safeExtName (a @ ''-'' @ b)
   \<and> safeExtName ''a-'' = ''a'' \<and> safeExtName ''a--b'' = ''aB''
   \<and> safeExtName ''-a'' = ''A'' \<and> safeExtName '''' = ''''"
proof -
  have general: "safeExtName (join ''-'' (s0 # ss))
        = s0 @ concat (map capitalize (filter (\<lambda>s. s \<noteq> []) ss))"
    if "\<forall>s \<in> set (s0 # ss). CHR ''-'' \<notin> set s"
  proof -
    from that have "split (CHR ''-'') (join ''-'' (s0 # ss)) = s0 # ss"
      by (rule split_join)
    then show ?thesis
      by (simp only: safeExtName_segments capitalize_drop_empty)
  qed
  have every: "\<exists>t0 ts. nm = join ''-'' (t0 # ts) \<and> (\<forall>s \<in> set (t0 # ts). CHR ''-'' \<notin> set s)"
  proof -
    obtain t0 ts where sp: "split (CHR ''-'') nm = t0 # ts"
      using split_not_Nil [of "CHR ''-''" nm] by (cases "split (CHR ''-'') nm") auto
    have "nm = join ''-'' (t0 # ts)"
      using join_split [of "CHR ''-''" nm] sp by simp
    moreover have "\<forall>s \<in> set (t0 # ts). CHR ''-'' \<notin> set s"
      using split_segments_free [of _ "CHR ''-''" nm] sp by auto
    ultimately show ?thesis by blast
  qed
  obtain h t where sn: "split (CHR ''-'') nm = h # t"
    using split_not_Nil [of "CHR ''-''" nm] by (cases "split (CHR ''-'') nm") auto
  have trailing: "safeExtName (nm @ ''-'') = safeExtName nm"
    using split_append_separator [of "CHR ''-''" nm "[]"] sn
    by (simp add: safeExtName_split)
  obtain h' t' where sa: "split (CHR ''-'') a = h' # t'"
    using split_not_Nil [of "CHR ''-''" a] by (cases "split (CHR ''-'') a") auto
  have doubled: "safeExtName (a @ ''--'' @ b) = safeExtName (a @ ''-'' @ b)"
    using split_append_separator [of "CHR ''-''" a "CHR ''-'' # b"]
      split_append_separator [of "CHR ''-''" a b] sa
    by (simp add: safeExtName_split)
  have instances: "safeExtName ''a-'' = ''a'' \<and> safeExtName ''a--b'' = ''aB''
      \<and> safeExtName ''-a'' = ''A'' \<and> safeExtName '''' = ''''"
    by (simp add: safeExtName_def toUpperCase_def toUpperChar_def charAt_def substring_def)
  from general every trailing doubled instances show ?thesis by blast
qed

theorem safeExtName_empty_segments_witness:
  "safeExtName (join ''-'' ['''', ''a'', '''', '''', ''b'', '''']) = ''AB''
   \<and> safeExtName ''-a---b-'' = ''AB''"
  using safeExtName_empty_segments [of "''''" "[''a'', '''', '''', ''b'', '''']" "''''" "''''" "''''"]
  by (simp add: toUpperChar_def)

section \<open>The claims about the generated script\<close>

text \<open>
  C3: the script has a fixed layout.  Its first statement imports the base library as
  \<open>htmx\<close> from \<open>"htmx.org"\<close>; the import statements of the extensions follow, one for each
  extension and a newline between two; then the listener for \<open>astro:after-swap\<close>, whose
  body first calls \<open>htmx.process(document.body)\<close> and then holds the registration calls,
  one for each extension; the last statement is \<open>window.htmx = htmx;\<close>.  Between the
  statements there are only line breaks and indentation.  The second part is the whole
  text for a list of two extensions.
\<close>

theorem script_structure:
  \<open>generateBootstrapScript exts =
     ''import * as htmx from "htmx.org";'' @ lineBreak 10
     @ join ''\<newline>''
         (map (\<lambda>ext. ''import * as '' @ safeExtName (name ext) @ '' from "''
                      @ (case path ext of None \<Rightarrow> name ext | Some p \<Rightarrow> p) @ ''";'') exts)
     @ lineBreak 0 @ lineBreak 10
     @ ''document.addEventListener('astro:after-swap', () => {'' @ lineBreak 12
     @ ''htmx.process(document.body);'' @ lineBreak 12
     @ join ''\<newline>''
         (map (\<lambda>ext. ''htmx.defineExtension("'' @ name ext @ ''", "''
                      @ safeExtName (name ext) @ ''");'') exts)
     @ lineBreak 10
     @ ''});'' @ lineBreak 0 @ lineBreak 10
     @ ''window.htmx = htmx;''
   \<and> generateBootstrapScript
       [\<lparr>name = ''response-targets'', path = None\<rparr>, \<lparr>name = ''foo'', path = Some ''./local/foo''\<rparr>] =
     ''import * as htmx from "htmx.org";\<newline>          import * as responseTargets from "response-targets";\<newline>import * as foo from "./local/foo";\<newline>\<newline>          document.addEventListener('astro:after-swap', () => {\<newline>            htmx.process(document.body);\<newline>            htmx.defineExtension("response-targets", "responseTargets");\<newline>htmx.defineExtension("foo", "foo");\<newline>          });\<newline>\<newline>          window.htmx = htmx;''\<close>
proof -
  have i: \<open>map importStatement exts =
      map (\<lambda>ext. ''import * as '' @ safeExtName (name ext) @ '' from "''
                   @ (case path ext of None \<Rightarrow> name ext | Some p \<Rightarrow> p) @ ''";'') exts\<close>
    by (simp add: importStatement_def)
  have r: \<open>map registrationStatement exts =
      map (\<lambda>ext. ''htmx.defineExtension("'' @ name ext @ ''", "''
                   @ safeExtName (name ext) @ ''");'') exts\<close>
    by (simp add: registrationStatement_def)
  have \<open>generateBootstrapScript exts =
     ''import * as htmx from "htmx.org";'' @ lineBreak 10
     @ join ''\<newline>'' (map importStatement exts)
     @ lineBreak 0 @ lineBreak 10
     @ ''document.addEventListener('astro:after-swap', () => {'' @ lineBreak 12
     @ ''htmx.process(document.body);'' @ lineBreak 12
     @ join ''\<newline>'' (map registrationStatement exts)
     @ lineBreak 10
     @ ''});'' @ lineBreak 0 @ lineBreak 10
     @ ''window.htmx = htmx;''\<close>
    by (simp add: generateBootstrapScript_def extensionImports_def extensionRegistrations_def
        lineBreak_def eval_nat_numeral)
  then show ?thesis
    unfolding i r using script_two_extensions_text by blast
qed

text \<open>
  C4: for the empty list of extensions (which the options \<open>{ extensions: [] }\<close> give) the
  script is the fixed text below.  It has one import, that of the base library, and no
  registration call, and it has the call of \<open>htmx.process\<close> and the assignment to
  \<open>window.htmx\<close>.  The generator is a total function: there is no input on which it fails.
\<close>

theorem empty_script:
  \<open>configuredExtensions (Some \<lparr>extensions = Some []\<rparr>) = []
   \<and> generateBootstrapScript [] =
     ''import * as htmx from "htmx.org";\<newline>          \<newline>\<newline>          document.addEventListener('astro:after-swap', () => {\<newline>            htmx.process(document.body);\<newline>            \<newline>          });\<newline>\<newline>          window.htmx = htmx;''
   \<and> countOccurrences ''import'' (generateBootstrapScript []) = 1
   \<and> startsWith (generateBootstrapScript []) ''import * as htmx from "htmx.org";''
   \<and> countOccurrences ''defineExtension'' (generateBootstrapScript []) = 0
   \<and> countOccurrences ''htmx.process(document.body);'' (generateBootstrapScript []) = 1
   \<and> countOccurrences ''window.htmx = htmx;'' (generateBootstrapScript []) = 1\<close>
  unfolding empty_script_text by (simp add: configuredExtensions_def)

text \<open>
  C5: the script contains, for every extension of the list, an import statement that binds
  the sanitized name and whose module specifier is \<open>path\<close> when it is present and \<open>name\<close>
  otherwise.  For \<open>{name: "foo", path: "./local/foo"}\<close> the specifier is \<open>"./local/foo"\<close>,
  and \<open>from "foo"\<close> does not occur in the script.
\<close>

theorem import_specifier:
  assumes "ext \<in> set exts"
  shows \<open>contains
           (''import * as '' @ safeExtName (name ext) @ '' from "''
              @ (case path ext of None \<Rightarrow> name ext | Some p \<Rightarrow> p) @ ''";'')
           (generateBootstrapScript exts)\<close>
proof -
  from assms obtain p q where "extensionImports exts = p @ importStatement ext @ q"
    using importStatement_in_imports by blast
  then have "\<exists>p' q'. generateBootstrapScript exts = p' @ importStatement ext @ q'"
    unfolding script_around_imports by (metis append.assoc)
  then show ?thesis
    by (simp add: contains_iff importStatement_def)
qed

theorem import_specifier_witness:
  \<open>\<lparr>name = ''foo'', path = Some ''./local/foo''\<rparr> \<in> set [\<lparr>name = ''foo'', path = Some ''./local/foo''\<rparr>]
   \<and> contains ''import * as foo from "./local/foo";''
        (generateBootstrapScript [\<lparr>name = ''foo'', path = Some ''./local/foo''\<rparr>])
   \<and> \<not> contains ''from "foo"''
        (generateBootstrapScript [\<lparr>name = ''foo'', path = Some ''./local/foo''\<rparr>])\<close>
proof -
  have n: \<open>safeExtName ''foo'' = ''foo''\<close>
    by (simp add: safeExtName_def)
  have \<open>\<not> contains ''from "foo"''
        (generateBootstrapScript [\<lparr>name = ''foo'', path = Some ''./local/foo''\<rparr>])\<close>
    by (simp add: contains_def generateBootstrapScript_def extensionImports_def
        extensionRegistrations_def importStatement_def registrationStatement_def n)
  then show ?thesis
    using import_specifier [of "\<lparr>name = ''foo'', path = Some ''./local/foo''\<rparr>"
        "[\<lparr>name = ''foo'', path = Some ''./local/foo''\<rparr>]"]
    by (simp add: n)
qed

text \<open>
  C6: when \<open>A\<close> stands before \<open>B\<close> in the list of extensions, the import statement of \<open>A\<close>
  stands before the import statement of \<open>B\<close> in the import block, and the registration call
  of \<open>A\<close> stands before the registration call of \<open>B\<close> in the listener.  The theorem gives the
  whole text of the script around the four statements, each statement written out.
\<close>

theorem order_preserved:
  \<open>let importOf = (\<lambda>ext. ''import * as '' @ safeExtName (name ext) @ '' from "''
                           @ (case path ext of None \<Rightarrow> name ext | Some p \<Rightarrow> p) @ ''";'');
       registrationOf = (\<lambda>ext. ''htmx.defineExtension("'' @ name ext @ ''", "''
                                 @ safeExtName (name ext) @ ''");'')
   in generateBootstrapScript (before @ A # between @ B # after) =
     ''import * as htmx from "htmx.org";\<newline>          ''
     @ eachFollowedBy ''\<newline>'' (map importOf before)
     @ importOf A @ ''\<newline>''
     @ eachFollowedBy ''\<newline>'' (map importOf between)
     @ importOf B
     @ eachPrecededBy ''\<newline>'' (map importOf after)
     @ ''\<newline>\<newline>          document.addEventListener('astro:after-swap', () => {\<newline>            htmx.process(document.body);\<newline>            ''
     @ eachFollowedBy ''\<newline>'' (map registrationOf before)
     @ registrationOf A @ ''\<newline>''
     @ eachFollowedBy ''\<newline>'' (map registrationOf between)
     @ registrationOf B
     @ eachPrecededBy ''\<newline>'' (map registrationOf after)
     @ ''\<newline>          });\<newline>\<newline>          window.htmx = htmx;''\<close>
proof -
  have io: \<open>(\<lambda>ext. ''import * as '' @ safeExtName (name ext) @ '' from "''
                   @ (case path ext of None \<Rightarrow> name ext | Some p \<Rightarrow> p) @ ''";'')
            = importStatement\<close>
    by (rule ext) (simp add: importStatement_def)
  have ro: \<open>(\<lambda>ext. ''htmx.defineExtension("'' @ name ext @ ''", "''
                   @ safeExtName (name ext) @ ''");'')
            = registrationStatement\<close>
    by (rule ext) (simp add: registrationStatement_def)
  have i: "extensionImports (before @ A # between @ B # after)
      = eachFollowedBy ''\<newline>'' (map importStatement before)
        @ importStatement A @ ''\<newline>''
        @ eachFollowedBy ''\<newline>'' (map importStatement between)
        @ importStatement B
        @ eachPrecededBy ''\<newline>'' (map importStatement after)"
    by (simp add: extensionImports_def join_around_two)
  have r: "extensionRegistrations (before @ A # between @ B # after)
      = eachFollowedBy ''\<newline>'' (map registrationStatement before)
        @ registrationStatement A @ ''\<newline>''
        @ eachFollowedBy ''\<newline>'' (map registrationStatement between)
        @ registrationStatement B
        @ eachPrecededBy ''\<newline>'' (map registrationStatement after)"
    by (simp add: extensionRegistrations_def join_around_two)
  show ?thesis
    unfolding Let_def io ro script_around_imports i r by simp
qed

text \<open>
  C8: the integration has one hook, \<open>astro:config:setup\<close>.  Run on a host that keeps the
  calls of \<open>injectScript\<close>, it adds one call to those made before: stage \<open>page\<close>, and as
  content the script generated from the configured list of extensions (from the empty
  list when the options or the list are missing).  For any callback, the effect of the
  hook is the effect of that single call.  The last part runs the hook for a list of two
  extensions.
\<close>

theorem setup_injects_once:
  \<open>map (\<lambda>(hookName, hook). (hookName, hook recordInjection calls))
       (hooks (htmx (Some \<lparr>extensions = Some exts\<rparr>)))
     = [(''astro:config:setup'', calls @ [(''page'', generateBootstrapScript exts)])]
   \<and> map (\<lambda>(hookName, hook). (hookName, hook recordInjection calls))
       (hooks (htmx (Some \<lparr>extensions = None\<rparr>)))
     = [(''astro:config:setup'', calls @ [(''page'', generateBootstrapScript [])])]
   \<and> map (\<lambda>(hookName, hook). (hookName, hook recordInjection calls)) (hooks (htmx None))
     = [(''astro:config:setup'', calls @ [(''page'', generateBootstrapScript [])])]
   \<and> configuredExtensions (Some \<lparr>extensions = Some exts\<rparr>) = exts
   \<and> map (\<lambda>(hookName, hook). (hookName, hook recordInjection calls)) (hooks (htmx arg))
     = [(''astro:config:setup'',
         calls @ [(''page'', generateBootstrapScript (configuredExtensions arg))])]
   \<and> astroConfigSetup exts injectScript h = injectScript ''page'' (generateBootstrapScript exts) h
   \<and> map (\<lambda>(hookName, hook). (hookName, hook recordInjection []))
       (hooks (htmx (Some \<lparr>extensions = Some
          [\<lparr>name = ''response-targets'', path = None\<rparr>,
           \<lparr>name = ''foo'', path = Some ''./local/foo''\<rparr>]\<rparr>)))
     = [(''astro:config:setup'',
         [(''page'',
           ''import * as htmx from "htmx.org";\<newline>          import * as responseTargets from "response-targets";\<newline>import * as foo from "./local/foo";\<newline>\<newline>          document.addEventListener('astro:after-swap', () => {\<newline>            htmx.process(document.body);\<newline>            htmx.defineExtension("response-targets", "responseTargets");\<newline>htmx.defineExtension("foo", "foo");\<newline>          });\<newline>\<newline>          window.htmx = htmx;'')])]\<close>
proof -
  have run: "map (\<lambda>(hookName, hook). (hookName, hook recordInjection cs)) (hooks (htmx arg'))
     = [(''astro:config:setup'',
         cs @ [(''page'', generateBootstrapScript (configuredExtensions arg'))])]" for cs arg'
    by (simp add: htmx_def astroConfigSetup_def recordInjection_def)
  have given: "configuredExtensions (Some \<lparr>extensions = Some es\<rparr>) = es" for es
    by (simp add: configuredExtensions_def)
  have missing: "configuredExtensions (Some \<lparr>extensions = None\<rparr>) = []"
    "configuredExtensions None = []"
    by (simp_all add: configuredExtensions_def)
  have hook: "astroConfigSetup exts injectScript h
      = injectScript ''page'' (generateBootstrapScript exts) h"
    by (simp add: astroConfigSetup_def)
  show ?thesis
    unfolding run given missing script_two_extensions_text using hook by simp
qed

text \<open>
  C10: the factory called without an argument, with \<open>{}\<close> and with \<open>{ extensions: [] }\<close>
  returns the same integration: the name \<open>astro-htmx\<close>, the one hook, and the same script,
  which is the script of the empty list.
\<close>

theorem factory_defaults:
  "htmx None = htmx (Some \<lparr>extensions = None\<rparr>)
   \<and> htmx (Some \<lparr>extensions = None\<rparr>) = htmx (Some \<lparr>extensions = Some []\<rparr>)
   \<and> integrationName (htmx (Some \<lparr>extensions = Some []\<rparr>)) = ''astro-htmx''
   \<and> hooks (htmx (Some \<lparr>extensions = Some []\<rparr>)) = [(''astro:config:setup'', astroConfigSetup [])]
   \<and> generateBootstrapScript (configuredExtensions None) = generateBootstrapScript []
   \<and> generateBootstrapScript (configuredExtensions (Some \<lparr>extensions = None\<rparr>)) = generateBootstrapScript []
   \<and> generateBootstrapScript (configuredExtensions (Some \<lparr>extensions = Some []\<rparr>)) = generateBootstrapScript []"
  by (simp add: htmx_def configuredExtensions_def)

text \<open>
  C1: the registration call the code generates for the name \<open>response-targets\<close> is
  \<open>htmx.defineExtension("response-targets", "responseTargets");\<close>.  Its second argument
  is the sanitized name inside double quotes, a string literal; the call with the bare
  identifier, \<open>("response-targets", responseTargets)\<close>, does not occur in the script.
\<close>

theorem registration_passes_string:
  \<open>extensionRegistrations [\<lparr>name = ''response-targets'', path = None\<rparr>]
     = ''htmx.defineExtension("response-targets", "responseTargets");''
   \<and> contains ''("response-targets", "responseTargets")''
        (generateBootstrapScript [\<lparr>name = ''response-targets'', path = None\<rparr>])
   \<and> \<not> contains ''("response-targets", responseTargets)''
        (generateBootstrapScript [\<lparr>name = ''response-targets'', path = None\<rparr>])\<close>
proof -
  have n: \<open>safeExtName ''response-targets'' = ''responseTargets''\<close>
    by (simp add: safeExtName_def toUpperCase_def toUpperChar_def charAt_def substring_def)
  show ?thesis
    by (simp add: contains_def generateBootstrapScript_def extensionImports_def
        extensionRegistrations_def importStatement_def registrationStatement_def n)
qed

end
